theory Spec2Isabelle
  imports Main
begin

section \<open>Python string operations used by the generator\<close>

text \<open>
  Python strings are modelled as \<open>string\<close>. The generator uses \<open>str.startswith\<close>,
  \<open>str.replace\<close>, \<open>str.join\<close>, \<open>str.split\<close>, \<open>str.lower\<close> and the substring test
  \<open>x in s\<close>; each is written out here as a recursive function.
\<close>

fun startswith :: "string \<Rightarrow> string \<Rightarrow> bool" where
  "startswith s [] = True"
| "startswith [] (p # ps) = False"
| "startswith (c # s) (p # ps) = (if c = p then startswith s ps else False)"

text \<open>
  \<open>s.replace(old, new)\<close>: every non-overlapping occurrence of \<open>old\<close>, scanning from the
  left. With an empty \<open>old\<close> Python inserts \<open>new\<close> before every character and at the end.
\<close>

function replace :: "string \<Rightarrow> string \<Rightarrow> string \<Rightarrow> string" where
  "replace [] old new = (if old = [] then new else [])"
| "replace (c # s) old new =
     (if old = [] then new @ c # replace s old new
      else if startswith (c # s) old then new @ replace (drop (length old) (c # s)) old new
      else c # replace s old new)"
  by pat_completeness auto
termination
  by (relation "measure (\<lambda>(s, old, new). length s)") auto

text \<open>\<open>sep.join(xs)\<close>.\<close>

fun join :: "string \<Rightarrow> string list \<Rightarrow> string" where
  "join sep [] = []"
| "join sep [x] = x"
| "join sep (x # y # ys) = x @ sep @ join sep (y # ys)"

text \<open>\<open>s.split(sep)\<close> for a one-character separator; the result is never empty.\<close>

fun split_str :: "string \<Rightarrow> char \<Rightarrow> string list" where
  "split_str [] sep = [[]]"
| "split_str (c # s) sep =
     (if c = sep then [] # split_str s sep
      else (case split_str s sep of
              [] \<Rightarrow> [[c]]
            | p # ps \<Rightarrow> (c # p) # ps))"

text \<open>\<open>x in s\<close> on two strings is the substring test.\<close>

fun is_in :: "string \<Rightarrow> string \<Rightarrow> bool" where
  "is_in x [] = (x = [])"
| "is_in x (c # s) = (if startswith (c # s) x then True else is_in x s)"

text \<open>
  \<open>s.lower()\<close> on the ASCII letters. The generator lowers only the element types
  \<open>Float\<close> and \<open>Int\<close>.
\<close>

definition upper_lower :: "(char \<times> char) list" where
  "upper_lower = zip ''ABCDEFGHIJKLMNOPQRSTUVWXYZ'' ''abcdefghijklmnopqrstuvwxyz''"

definition lower :: "string \<Rightarrow> string" where
  "lower s = map (\<lambda>c. case map_of upper_lower c of None \<Rightarrow> c | Some l \<Rightarrow> l) s"

section \<open>The data model\<close>

text \<open>
  An AST node is the JSON object the parser writes: \<open>kind\<close>, \<open>name\<close>,
  \<open>element_type\<close>, \<open>members\<close> (the children, in source order), \<open>depth\<close>, \<open>line\<close> and
  \<open>column\<close>. Every key is present, so no read of a node raises.
\<close>

datatype node =
  Node (kind: string) (name: string) (element_type: string) (members: "node list")
       (depth: int) (line: int) (column: int)

text \<open>The entries of \<open>_state_stack\<close> and of \<open>_skipped\<close> (Python dicts with fixed keys).\<close>

record frame =
  frame_kind :: string
  frame_name :: string
  frame_depth :: int

record skipped_record =
  rec_line :: int
  rec_column :: int
  rec_kind :: string
  rec_name :: string

datatype error = KeyError string | IndexError | Exception string

text \<open>
  The values of the dispatch table are bound-method objects. Python creates a new
  bound-method object each time a method is read from the instance (\<open>self.skip\<close>), and
  \<open>is\<close> compares object identity; so an object carries the number under which it was
  created, next to the method it is bound to.
\<close>

datatype handler =
  Skip | Handle_namespace | Handle_constructor | Handle_inclusion_directive
| Handle_struct_decl

datatype bound_method = Bound_method (obj_id: nat) (func: handler)

definition is_not :: "bound_method \<Rightarrow> bound_method \<Rightarrow> bool" where
  "is_not a b = (obj_id a \<noteq> obj_id b)"

text \<open>
  The state of a \<open>bind\<close> object. \<open>self.kind\<close>, \<open>self.name\<close>, \<open>self.members\<close> and
  \<open>self.depth\<close> are assigned together with \<open>self.item\<close>, from its fields, and nowhere
  else: they are read here as \<open>kind (item self)\<close> and so on. \<open>allocated\<close> counts
  the bound-method objects created so far.
\<close>

record bind =
  state_stack :: "frame list"
  linelist :: "string list"
  skipped :: "skipped_record list"
  inclusion_list :: "string list"
  item :: node
  allocated :: nat

definition initial_pybind_lines :: "string list" where
  "initial_pybind_lines =
     [''#include <pybind11/pybind11.h>'',
      ''#include <pybind11/stl.h>'',
      ''#include <pybind11/stl_bind.h>'',
      ''namespace py = pybind11;'',
      ''using namespace py::literals;'']"

text \<open>
  The dispatch table built by \<open>__init__\<close>. The four aliases \<open>handled_by_pybind\<close>,
  \<open>handled_elsewhere\<close>, \<open>no_need_to_handle\<close> and \<open>unsure\<close> are four reads of
  \<open>self.skip\<close> (objects 0 to 3); every \<open>self.handle_...\<close> and \<open>self.skip\<close> inside the
  dict display is one more read, in the order of the display (objects 4 to 10).
\<close>

definition handled_by_pybind :: bound_method where
  "handled_by_pybind = Bound_method 0 Skip"

definition handled_elsewhere :: bound_method where
  "handled_elsewhere = Bound_method 1 Skip"

definition no_need_to_handle :: bound_method where
  "no_need_to_handle = Bound_method 2 Skip"

definition unsure :: bound_method where
  "unsure = Bound_method 3 Skip"

definition kind_functions :: "(string \<times> bound_method) list" where
  "kind_functions =
     [(''TRANSLATION_UNIT'', no_need_to_handle),
      (''NAMESPACE'', Bound_method 4 Handle_namespace),
      (''CXX_BASE_SPECIFIER'', handled_elsewhere),
      (''CXX_METHOD'', handled_elsewhere),
      (''CONSTRUCTOR'', Bound_method 5 Handle_constructor),
      (''INCLUSION_DIRECTIVE'', Bound_method 6 Handle_inclusion_directive),
      (''STRUCT_DECL'', Bound_method 7 Handle_struct_decl),
      (''CLASS_DECL'', Bound_method 8 Handle_struct_decl),
      (''VAR_DECL'', handled_by_pybind),
      (''PARM_DECL'', handled_elsewhere),
      (''FIELD_DECL'', handled_elsewhere),
      (''ANONYMOUS_UNION_DECL'', handled_elsewhere),
      (''ANONYMOUS_STRUCT_DECL'', handled_elsewhere),
      (''FRIEND_DECL'', unsure),
      (''FUNCTION_DECL'', unsure),
      (''CALL_EXPR'', handled_by_pybind),
      (''UNEXPOSED_EXPR'', unsure),
      (''MEMBER_REF_EXPR'', unsure),
      (''DECL_REF_EXPR'', unsure),
      (''ARRAY_SUBSCRIPT_EXPR'', handled_by_pybind),
      (''CXX_THROW_EXPR'', handled_by_pybind),
      (''INIT_LIST_EXPR'', no_need_to_handle),
      (''OBJ_BOOL_LITERAL_EXPR'', unsure),
      (''CXX_NULL_PTR_LITERAL_EXPR'', no_need_to_handle),
      (''CXX_STATIC_CAST_EXPR'', no_need_to_handle),
      (''PAREN_EXPR'', handled_by_pybind),
      (''CXX_DELETE_EXPR'', handled_by_pybind),
      (''INTEGER_LITERAL'', unsure),
      (''FLOATING_LITERAL'', unsure),
      (''STRING_LITERAL'', no_need_to_handle),
      (''OBJC_STRING_LITERAL'', no_need_to_handle),
      (''ALIGNED_ATTR'', no_need_to_handle),
      (''BINARY_OPERATOR'', no_need_to_handle),
      (''UNARY_OPERATOR'', no_need_to_handle),
      (''MACRO_DEFINITION'', unsure),
      (''MACRO_INSTANTIATION'', unsure),
      (''NAMESPACE_REF'', handled_elsewhere),
      (''TYPE_REF'', handled_elsewhere),
      (''MEMBER_REF'', handled_by_pybind),
      (''OVERLOADED_DECL_REF'', unsure),
      (''TEMPLATE_REF'', unsure),
      (''VARIABLE_REF'', handled_by_pybind),
      (''COMPOUND_STMT'', no_need_to_handle),
      (''RETURN_STMT'', handled_by_pybind),
      (''IF_STMT'', no_need_to_handle),
      (''FOR_STMT'', handled_by_pybind),
      (''DECL_STMT'', unsure),
      (''SWITCH_STMT'', handled_by_pybind),
      (''CASE_STMT'', handled_by_pybind),
      (''DEFAULT_STMT'', handled_by_pybind),
      (''CXX_TRY_STMT'', handled_by_pybind),
      (''CXX_CATCH_STMT'', handled_by_pybind),
      (''CLASS_TEMPLATE'', Bound_method 9 Skip),
      (''TEMPLATE_NON_TYPE_PARAMETER'', handled_elsewhere),
      (''FUNCTION_TEMPLATE'', Bound_method 10 Skip)]"

text \<open>
  The object after \<open>__init__\<close> has built the table and before it calls
  \<open>handle_node root\<close>. \<open>self.item\<close> does not exist yet; \<open>handle_node\<close> assigns it
  before anything reads it, and the record holds the root until then.
\<close>

definition init :: "node \<Rightarrow> bind" where
  "init root =
     \<lparr>state_stack = [], linelist = [], skipped = [], inclusion_list = [],
      item = root, allocated = 11\<rparr>"

section \<open>The handlers\<close>

definition skip :: "bind \<Rightarrow> bind" where
  "skip self =
     self\<lparr>skipped := skipped self @
       [\<lparr>rec_line = line (item self),
         rec_column = line (item self),
         rec_kind = kind (item self),
         rec_name = name (item self)\<rparr>]\<rparr>"

text \<open>\<open>self._linelist.append(s)\<close>.\<close>

definition append_line :: "string \<Rightarrow> bind \<Rightarrow> bind" where
  "append_line s self = self\<lparr>linelist := linelist self @ [s]\<rparr>"

text \<open>
  \<open>end_scope\<close> reads \<open>self._state_stack[-1]\<close>, which raises \<open>IndexError\<close> on an empty
  stack. The second \<open>STRUCT_DECL\<close> branch is in the source.
\<close>

definition end_scope :: "bind \<Rightarrow> error + bind" where
  "end_scope self =
     (if state_stack self = [] then Inl IndexError
      else if frame_kind (last (state_stack self)) = ''NAMESPACE''
        then Inr (append_line ''}'' self)
      else if frame_kind (last (state_stack self)) = ''STRUCT_DECL''
        then Inr (append_line '';'' self)
      else if frame_kind (last (state_stack self)) = ''STRUCT_DECL''
        then Inr (append_line '';'' self)
      else if frame_kind (last (state_stack self)) = ''CLASS_TEMPLATE''
        then Inr (append_line '';'' self)
      else Inr self)"

text \<open>\<open>self._state_stack.pop()\<close>.\<close>

definition pop :: "bind \<Rightarrow> error + bind" where
  "pop self =
     (if state_stack self = [] then Inl IndexError
      else Inr (self\<lparr>state_stack := butlast (state_stack self)\<rparr>))"

text \<open>
  \<open>get_fields_from_anonymous\<close>: the loop over \<open>item["members"]\<close> with its accumulator
  \<open>fields\<close> (here \<open>flds\<close>).
\<close>

fun get_fields_from_anonymous :: "node \<Rightarrow> node list"
and get_fields_loop :: "node list \<Rightarrow> node list \<Rightarrow> node list" where
  "get_fields_from_anonymous (Node k n et ms d l c) = get_fields_loop ms []"
| "get_fields_loop [] flds = flds"
| "get_fields_loop (sub_item # rest) flds =
     (if kind sub_item = ''FIELD_DECL''
        then get_fields_loop rest (flds @ [sub_item])
      else if kind sub_item = ''ANONYMOUS_UNION_DECL'' \<or> kind sub_item = ''ANONYMOUS_STRUCT_DECL''
        then get_fields_loop rest (flds @ get_fields_from_anonymous sub_item)
      else get_fields_loop rest flds)"

definition handle_namespace :: "bind \<Rightarrow> bind" where
  "handle_namespace self = append_line (''namespace '' @ name (item self) @ ''{'') self"

text \<open>The two member-exposure fragments, for a field \<open>f\<close> of the aggregate \<open>cls\<close>.\<close>

definition def_property_readonly :: "string \<Rightarrow> string \<Rightarrow> string" where
  \<open>def_property_readonly cls f =
     ''.def_property_readonly("'' @ f @ ''", []('' @ cls @ ''& obj) {return obj.'' @ f @ ''; })''\<close>

definition def_readwrite :: "string \<Rightarrow> string \<Rightarrow> string" where
  \<open>def_readwrite cls f = ''.def_readwrite("'' @ f @ ''", &'' @ cls @ ''::'' @ f @ '')''\<close>

definition def_method :: "string \<Rightarrow> string \<Rightarrow> string" where
  \<open>def_method cls f =
     ''.def("'' @ f @ ''", py::overload_cast<>(&'' @ cls @ ''::'' @ f @ ''))''\<close>

text \<open>The body of the loop over the fields of one flattened child.\<close>

definition emit_field :: "node \<Rightarrow> bind \<Rightarrow> bind" where
  "emit_field field self =
     (if element_type field = ''ConstantArray''
        then append_line (def_property_readonly (name (item self)) (name field)) self
      else append_line (def_readwrite (name (item self)) (name field)) self)"

text \<open>The body of the last loop of \<open>handle_struct_decl\<close>: two \<open>if\<close>s in a row.\<close>

definition emit_member :: "node \<Rightarrow> bind \<Rightarrow> bind" where
  "emit_member sub_item self =
     (let self1 =
        (if kind sub_item = ''FIELD_DECL''
           then (if element_type sub_item = ''ConstantArray''
                   then append_line (def_property_readonly (name (item self)) (name sub_item)) self
                 else append_line (def_readwrite (name (item self)) (name sub_item)) self)
         else self)
      in if kind sub_item = ''CXX_METHOD''
           then (if \<not> is_in (name sub_item) ''PCL_DEPRECATED''
                   then append_line (def_method (name (item self1)) (name sub_item)) self1
                 else self1)
         else self1)"

definition handle_struct_decl :: "bind \<Rightarrow> bind" where
  \<open>handle_struct_decl self =
     (let class_name =
            fold (\<lambda>sub_item class_name.
                    if kind sub_item = ''TYPE_REF''
                      then name (item self) @ ''<'' @
                           replace (replace (name sub_item) ''struct '' '''') ''pcl::'' '''' @ ''>''
                    else class_name)
                 (members (item self)) (name (item self));
          cxx_base_specifier_list =
            map name (filter (\<lambda>sub_item. kind sub_item = ''CXX_BASE_SPECIFIER'')
                             (members (item self)));
          self1 =
            (if cxx_base_specifier_list \<noteq> []
               then append_line
                      (''py::class_<'' @ class_name @ '', '' @
                       replace (replace (join '','' cxx_base_specifier_list) ''struct '' '''')
                               ''pcl::'' '''' @
                       ''>(m, "'' @ class_name @ ''")'') self
             else append_line
                    (''py::class_<'' @ class_name @ ''>(m, "'' @ class_name @ ''")'') self);
          self2 = append_line ''.def(py::init<>())'' self1;
          self3 =
            fold (\<lambda>sub_item s. fold emit_field (get_fields_from_anonymous sub_item) s)
                 (members (item self2)) self2
      in fold emit_member (members (item self3)) self3)\<close>

text \<open>
  \<open>handle_constructor\<close>: the inner loops over the children of one parameter. The
  \<open>Elaborated\<close> loop carries \<open>namespace_ref\<close> next to the list.
\<close>

definition reference_step :: "node \<Rightarrow> string list \<Rightarrow> string list" where
  "reference_step sub_sub_item parameter_type_list =
     (if kind sub_sub_item = ''TYPE_REF''
        then parameter_type_list @
             [replace (replace (name sub_sub_item) ''struct '' '''') ''pcl::'' '''' @ '' &'']
      else parameter_type_list)"

definition elaborated_step ::
  "node \<Rightarrow> string \<times> string list \<Rightarrow> string \<times> string list" where
  "elaborated_step sub_sub_item acc =
     (let namespace_ref =
            (if kind sub_sub_item = ''NAMESPACE_REF''
               then fst acc @ name sub_sub_item @ ''::''
             else fst acc)
      in if kind sub_sub_item = ''TYPE_REF''
           then (namespace_ref, snd acc @ [namespace_ref @ name sub_sub_item])
         else (namespace_ref, snd acc))"

definition parameter_step :: "node \<Rightarrow> string list \<Rightarrow> string list" where
  "parameter_step sub_item parameter_type_list =
     (if kind sub_item = ''PARM_DECL''
        then (if element_type sub_item = ''LValueReference''
                then fold reference_step (members sub_item) parameter_type_list
              else if element_type sub_item = ''Elaborated''
                then snd (fold elaborated_step (members sub_item) ('''', parameter_type_list))
              else if element_type sub_item = ''Float'' \<or> element_type sub_item = ''Int''
                then parameter_type_list @ [lower (element_type sub_item)]
              else parameter_type_list @ [element_type sub_item])
      else parameter_type_list)"

definition handle_constructor :: "bind \<Rightarrow> bind" where
  "handle_constructor self =
     (let parameter_type_list = fold parameter_step (members (item self)) [];
          parameter_type_list = join '','' parameter_type_list
      in if parameter_type_list \<noteq> []
           then append_line (''.def(py::init<'' @ parameter_type_list @ ''>())'') self
         else self)"

definition handle_inclusion_directive :: "bind \<Rightarrow> bind" where
  "handle_inclusion_directive self = self"

text \<open>Calling a bound method of the table.\<close>

definition call :: "bound_method \<Rightarrow> bind \<Rightarrow> bind" where
  "call f self =
     (case func f of
        Skip \<Rightarrow> skip self
      | Handle_namespace \<Rightarrow> handle_namespace self
      | Handle_constructor \<Rightarrow> handle_constructor self
      | Handle_inclusion_directive \<Rightarrow> handle_inclusion_directive self
      | Handle_struct_decl \<Rightarrow> handle_struct_decl self)"

section \<open>The walker\<close>

text \<open>
  \<open>handle_node\<close>. A kind that is not a key of \<open>kind_functions\<close> raises \<open>KeyError\<close>.
  The test \<open>self.kind_functions[self.kind] is not self.skip\<close> reads \<open>self.skip\<close>
  again, which creates one more bound-method object, and compares identities. The loop
  runs over the list \<open>self.members\<close> held when the loop starts, the members of the node.
\<close>

fun handle_node :: "node \<Rightarrow> bind \<Rightarrow> error + bind"
and handle_members :: "node list \<Rightarrow> bind \<Rightarrow> error + bind" where
  "handle_node (Node k n et ms d l c) self =
     (let self1 = self\<lparr>item := Node k n et ms d l c\<rparr>;
          self2 = self1\<lparr>state_stack := state_stack self1 @
                    [\<lparr>frame_kind = k, frame_name = n, frame_depth = d\<rparr>]\<rparr>
      in case map_of kind_functions k of
           None \<Rightarrow> Inl (KeyError k)
         | Some f \<Rightarrow>
             (let self3 = call f self2;
                  self_skip = Bound_method (allocated self3) Skip;
                  self4 = self3\<lparr>allocated := Suc (allocated self3)\<rparr>
              in case (if is_not f self_skip then handle_members ms self4 else Inr self4) of
                   Inl e \<Rightarrow> Inl e
                 | Inr self5 \<Rightarrow>
                     (case end_scope self5 of
                        Inl e \<Rightarrow> Inl e
                      | Inr self6 \<Rightarrow> pop self6)))"
| "handle_members [] self = Inr self"
| "handle_members (sub_item # rest) self =
     (case handle_node sub_item self of
        Inl e \<Rightarrow> Inl e
      | Inr self1 \<Rightarrow> handle_members rest self1)"

section \<open>The module assembler\<close>

definition module_open :: "string \<Rightarrow> string" where
  "module_open module_name = ''PYBIND11_MODULE('' @ module_name @ '', m)'' @ ''{''"

text \<open>
  The loop \<open>for i in range(len(self._linelist))\<close> of \<open>handle_final\<close>: \<open>continue\<close> on a
  line that starts with \<open>namespace\<close>, else rewrite the line in place and \<open>break\<close>.
\<close>

function module_loop :: "nat \<Rightarrow> string \<Rightarrow> string list \<Rightarrow> string list" where
  "module_loop i module_name ls =
     (if i < length ls
        then (if startswith (ls ! i) ''namespace''
                then module_loop (Suc i) module_name ls
              else ls[i := module_open module_name @ ls ! i])
      else ls)"
  by pat_completeness auto
termination
  by (relation "measure (\<lambda>(i, module_name, ls). length ls - i)") auto

declare module_loop.simps [simp del]

definition handle_final :: "string \<Rightarrow> string \<Rightarrow> bind \<Rightarrow> string list \<times> bind" where
  "handle_final filename module_name self =
     (let final = [''#include <'' @ filename @ ''>''];
          final = final @ initial_pybind_lines;
          self1 = self\<lparr>linelist := module_loop 0 module_name (linelist self)\<rparr>;
          final = final @ linelist self1;
          final = final @ [''}'']
      in (final, self1))"

text \<open>
  \<open>generate\<close>. Reading the JSON file is outside the generator: \<open>header_info\<close> is its
  result, \<open>None\<close> when the document is empty (falsy in Python).
\<close>

definition generate :: "node option \<Rightarrow> error + string list" where
  "generate header_info =
     (case header_info of
        Some root \<Rightarrow>
          (case handle_node root (init root) of
             Inl e \<Rightarrow> Inl e
           | Inr bind_object \<Rightarrow>
               (let filename = last (split_str (name root) CHR ''/'');
                    lines_to_write = fst (handle_final filename ''pcl'' bind_object)
                in Inr lines_to_write))
      | None \<Rightarrow> Inl (Exception ''Empty json''))"

section \<open>Closed forms of the loops\<close>

text \<open>
  What each loop of the handlers appends, as functions of the node alone. The lemmas
  below prove that the handlers compute exactly these.
\<close>

text \<open>The fragment of one field: read-only for a fixed-size array, read-write otherwise.\<close>

definition field_line :: "string \<Rightarrow> node \<Rightarrow> string" where
  "field_line cls field =
     (if element_type field = ''ConstantArray'' then def_property_readonly cls (name field)
      else def_readwrite cls (name field))"

text \<open>
  What the last loop of \<open>handle_struct_decl\<close> appends for one member: the fragment of a
  direct field, or of a method whose name is not found in the marker.
\<close>

definition member_lines :: "string \<Rightarrow> node \<Rightarrow> string list" where
  "member_lines cls sub_item =
     (if kind sub_item = ''FIELD_DECL'' then [field_line cls sub_item]
      else if kind sub_item = ''CXX_METHOD'' then
        (if is_in (name sub_item) ''PCL_DEPRECATED'' then [] else [def_method cls (name sub_item)])
      else [])"

text \<open>The registration line: the class name (with its template argument) and its bases.\<close>

definition class_registration :: "node \<Rightarrow> string" where
  \<open>class_registration itm =
     (let class_name =
            fold (\<lambda>sub_item class_name.
                    if kind sub_item = ''TYPE_REF''
                      then name itm @ ''<'' @
                           replace (replace (name sub_item) ''struct '' '''') ''pcl::'' '''' @ ''>''
                    else class_name)
                 (members itm) (name itm);
          bases = map name (filter (\<lambda>sub_item. kind sub_item = ''CXX_BASE_SPECIFIER'')
                                   (members itm))
      in if bases \<noteq> []
           then ''py::class_<'' @ class_name @ '', '' @
                replace (replace (join '','' bases) ''struct '' '''') ''pcl::'' '''' @
                ''>(m, "'' @ class_name @ ''")''
         else ''py::class_<'' @ class_name @ ''>(m, "'' @ class_name @ ''")'')\<close>

text \<open>All the lines of one aggregate, in the order in which the handler appends them.\<close>

definition struct_lines :: "node \<Rightarrow> string list" where
  "struct_lines itm =
     class_registration itm # ''.def(py::init<>())'' #
     concat (map (\<lambda>sub_item. map (field_line (name itm)) (get_fields_from_anonymous sub_item))
                 (members itm)) @
     concat (map (member_lines (name itm)) (members itm))"

text \<open>The two replacements applied to a referenced type name.\<close>

definition normalize :: "string \<Rightarrow> string" where
  "normalize s = replace (replace s ''struct '' '''') ''pcl::'' ''''"

text \<open>
  The types that the \<open>Elaborated\<close> loop appends for the children \<open>xs\<close> of a parameter,
  \<open>ns\<close> being the namespace prefix built so far.
\<close>

fun elaborated_types :: "string \<Rightarrow> node list \<Rightarrow> string list" where
  "elaborated_types ns [] = []"
| "elaborated_types ns (x # xs) =
     (if kind x = ''NAMESPACE_REF'' then elaborated_types (ns @ name x @ ''::'') xs
      else if kind x = ''TYPE_REF'' then (ns @ name x) # elaborated_types ns xs
      else elaborated_types ns xs)"

text \<open>The types that one \<open>PARM_DECL\<close> child contributes to the parameter list.\<close>

definition resolved_types :: "node \<Rightarrow> string list" where
  "resolved_types p =
     (if element_type p = ''LValueReference''
        then map (\<lambda>t. normalize (name t) @ '' &'') (filter (\<lambda>t. kind t = ''TYPE_REF'') (members p))
      else if element_type p = ''Elaborated'' then elaborated_types '''' (members p)
      else if element_type p = ''Float'' \<or> element_type p = ''Int'' then [lower (element_type p)]
      else [element_type p])"

definition parameter_types :: "node list \<Rightarrow> string list" where
  "parameter_types ms = concat (map resolved_types (filter (\<lambda>s. kind s = ''PARM_DECL'') ms))"

text \<open>
  The fragment list with the module opening in front of its first line that does not
  start with \<open>namespace\<close>.
\<close>

fun module_first :: "string \<Rightarrow> string list \<Rightarrow> string list" where
  "module_first module_name [] = []"
| "module_first module_name (x # xs) =
     (if startswith x ''namespace'' then x # module_first module_name xs
      else (module_open module_name @ x) # xs)"

text \<open>The nodes of a tree in pre-order, and the first of them that the table does not know.\<close>

fun preorder :: "node \<Rightarrow> node list"
and preorder_members :: "node list \<Rightarrow> node list" where
  "preorder (Node k n et ms d l c) = Node k n et ms d l c # preorder_members ms"
| "preorder_members [] = []"
| "preorder_members (x # xs) = preorder x @ preorder_members xs"

definition unhandled :: "node \<Rightarrow> bool" where
  "unhandled n = (map_of kind_functions (kind n) = None)"

text \<open>
  The outcome \<open>r\<close> of a walk started in state \<open>self\<close>, given the first unhandled node
  of the walked trees: the \<open>KeyError\<close> of that node, or else a state with the stack as
  it was at the start.
\<close>

definition walks :: "(error + bind) \<Rightarrow> bind \<Rightarrow> node option \<Rightarrow> bool" where
  "walks r self first =
     (case first of
        Some n \<Rightarrow> r = Inl (KeyError (kind n))
      | None \<Rightarrow> (\<exists>s'. r = Inr s' \<and> state_stack s' = state_stack self \<and> 11 \<le> allocated s'))"

section \<open>The handlers and their closed forms\<close>

lemma append_line_eq: "append_line s self = self\<lparr>linelist := linelist self @ [s]\<rparr>"
  by (simp add: append_line_def)

lemma fold_emit_field:
  "fold emit_field fs self =
     self\<lparr>linelist := linelist self @ map (field_line (name (item self))) fs\<rparr>"
  by (induction fs arbitrary: self) (simp_all add: emit_field_def append_line_def field_line_def)

lemma fold_flatten:
  "fold (\<lambda>sub_item s. fold emit_field (get_fields_from_anonymous sub_item) s) ms self =
     self\<lparr>linelist := linelist self @
       concat (map (\<lambda>sub_item. map (field_line (name (item self)))
                                  (get_fields_from_anonymous sub_item)) ms)\<rparr>"
  by (induction ms arbitrary: self) (simp_all add: fold_emit_field)

lemma emit_member_eq:
  "emit_member sub_item self =
     self\<lparr>linelist := linelist self @ member_lines (name (item self)) sub_item\<rparr>"
  by (simp add: emit_member_def member_lines_def field_line_def append_line_def Let_def)

lemma fold_emit_member:
  "fold emit_member ms self =
     self\<lparr>linelist := linelist self @ concat (map (member_lines (name (item self))) ms)\<rparr>"
  by (induction ms arbitrary: self) (simp_all add: emit_member_eq)

lemma handle_struct_decl_closed:
  "handle_struct_decl self = self\<lparr>linelist := linelist self @ struct_lines (item self)\<rparr>"
  by (simp add: handle_struct_decl_def struct_lines_def class_registration_def Let_def
        fold_flatten fold_emit_member append_line_def)

lemma fold_reference_step:
  "fold reference_step ms acc =
     acc @ map (\<lambda>t. normalize (name t) @ '' &'') (filter (\<lambda>t. kind t = ''TYPE_REF'') ms)"
  by (induction ms arbitrary: acc) (simp_all add: reference_step_def normalize_def)

lemma elaborated_step_pair:
  "elaborated_step x (ns, acc) =
     (if kind x = ''NAMESPACE_REF'' then ns @ name x @ ''::'' else ns,
      if kind x = ''TYPE_REF''
        then acc @ [(if kind x = ''NAMESPACE_REF'' then ns @ name x @ ''::'' else ns) @ name x]
      else acc)"
  by (simp add: elaborated_step_def Let_def)

lemma fold_elaborated_step:
  "snd (fold elaborated_step ms (ns, acc)) = acc @ elaborated_types ns ms"
  by (induction ms arbitrary: ns acc) (simp_all add: elaborated_step_pair)

lemma parameter_step_eq: "parameter_step sub_item acc =
  acc @ (if kind sub_item = ''PARM_DECL'' then resolved_types sub_item else [])"
  by (simp add: parameter_step_def resolved_types_def fold_elaborated_step fold_reference_step)

lemma fold_parameter_step: "fold parameter_step ms acc = acc @ parameter_types ms"
  by (induction ms arbitrary: acc) (simp_all add: parameter_step_eq parameter_types_def)

lemma handle_constructor_closed:
  "handle_constructor self =
     self\<lparr>linelist := linelist self @
       (if join '','' (parameter_types (members (item self))) = [] then []
        else [''.def(py::init<'' @ join '','' (parameter_types (members (item self))) @ ''>())''])\<rparr>"
  by (simp add: handle_constructor_def Let_def fold_parameter_step[of _ "[]", simplified] append_line_def)

lemma module_loop_drop:
  "i \<le> length ls \<Longrightarrow> module_loop i m ls = take i ls @ module_first m (drop i ls)"
proof (induction i m ls rule: module_loop.induct)
  case (1 i m ls)
  show ?case
  proof (cases "i < length ls")
    case False
    with 1(2) show ?thesis by (subst module_loop.simps) simp
  next
    case True
    then have d: "drop i ls = ls ! i # drop (Suc i) ls"
      by (simp add: Cons_nth_drop_Suc)
    show ?thesis
    proof (cases "startswith (ls ! i) ''namespace''")
      case True
      with 1(1) \<open>i < length ls\<close> have "module_loop (Suc i) m ls = take (Suc i) ls @ module_first m (drop (Suc i) ls)"
        by simp
      with True \<open>i < length ls\<close> d show ?thesis
        by (subst module_loop.simps) (simp add: take_Suc_conv_app_nth)
    next
      case False
      with \<open>i < length ls\<close> d show ?thesis
        by (subst module_loop.simps) (simp add: upd_conv_take_nth_drop)
    qed
  qed
qed

lemma module_loop_closed: "module_loop 0 m ls = module_first m ls"
  using module_loop_drop[of 0 ls m] by simp

lemma module_first_split:
  assumes "list_all (\<lambda>l. startswith l ''namespace'') pre"
    and "rest = [] \<or> \<not> startswith (hd rest) ''namespace''"
  shows "module_first m (pre @ rest) =
      pre @ (case rest of [] \<Rightarrow> [] | x # post \<Rightarrow> (module_open m @ x) # post)"
  using assms
proof (induction pre)
  case Nil
  then show ?case by (cases rest) simp_all
next
  case (Cons a pre)
  then show ?case by simp
qed

lemma handle_final_lines:
  "fst (handle_final f m self) =
      (''#include <'' @ f @ ''>'') # initial_pybind_lines @ module_first m (linelist self) @ [''}'']"
  by (simp add: handle_final_def Let_def module_loop_closed)

lemma generate_Some:
  assumes "handle_node root (init root) = Inr self"
  shows "generate (Some root) =
     Inr (fst (handle_final (last (split_str (name root) CHR ''/'')) ''pcl'' self))"
  using assms by (simp add: generate_def Let_def)

section \<open>The walker visits every node\<close>

lemma kind_functions_obj_id:
  assumes "map_of kind_functions k = Some f"
  shows "obj_id f < 11"
proof -
  have "\<forall>p \<in> set kind_functions. obj_id (snd p) < 11"
    by (simp add: kind_functions_def handled_by_pybind_def handled_elsewhere_def
          no_need_to_handle_def unsure_def)
  with map_of_SomeD[OF assms] show ?thesis by fastforce
qed

text \<open>
  The object that a new read of \<open>self.skip\<close> creates is none of the objects stored in
  the table, so the guard of the loop over the members holds at every node.
\<close>

lemma fresh_skip_is_not:
  assumes "map_of kind_functions k = Some f" and "11 \<le> allocated self"
  shows "is_not f (Bound_method (allocated self) Skip)"
  using kind_functions_obj_id[OF assms(1)] assms(2) by (simp add: is_not_def)

lemma skip_closed:
  "skip self = self\<lparr>skipped := skipped self @
       [\<lparr>rec_line = line (item self), rec_column = line (item self),
         rec_kind = kind (item self), rec_name = name (item self)\<rparr>]\<rparr>"
  by (simp add: skip_def)

lemma call_state_stack: "state_stack (call f self) = state_stack self"
  by (cases "func f")
     (simp_all add: call_def skip_def handle_namespace_def append_line_def
        handle_constructor_closed handle_inclusion_directive_def handle_struct_decl_closed)

lemma call_allocated: "allocated (call f self) = allocated self"
  by (cases "func f")
     (simp_all add: call_def skip_def handle_namespace_def append_line_def
        handle_constructor_closed handle_inclusion_directive_def handle_struct_decl_closed)

lemma end_scope_ok:
  assumes "state_stack self \<noteq> []"
  shows "\<exists>s'. end_scope self = Inr s' \<and> state_stack s' = state_stack self \<and>
               allocated s' = allocated self"
  using assms by (simp add: end_scope_def append_line_def)

lemma pop_ok:
  assumes "state_stack self = st @ [fr]"
  shows "\<exists>s'. pop self = Inr s' \<and> state_stack s' = st \<and> allocated s' = allocated self"
  using assms by (simp add: pop_def)

lemma find_append_case:
  "find P (xs @ ys) = (case find P xs of None \<Rightarrow> find P ys | Some x \<Rightarrow> Some x)"
  by (induction xs) simp_all

lemma handle_node_walks:
  "11 \<le> allocated self \<Longrightarrow> walks (handle_node itm self) self (find unhandled (preorder itm))"
  "11 \<le> allocated self \<Longrightarrow>
     walks (handle_members ms self) self (find unhandled (preorder_members ms))"
proof (induction itm and ms arbitrary: self and self rule: preorder_preorder_members.induct)
  case (1 k n et ms d l c)
  let ?itm = "Node k n et ms d l c"
  let ?fr = "\<lparr>frame_kind = k, frame_name = n, frame_depth = d\<rparr>"
  let ?self2 = "self\<lparr>item := ?itm, state_stack := state_stack self @ [?fr]\<rparr>"
  show ?case
  proof (cases "map_of kind_functions k")
    case None
    then show ?thesis by (simp add: walks_def unhandled_def)
  next
    case (Some f)
    let ?self3 = "call f ?self2"
    let ?self4 = "?self3\<lparr>allocated := Suc (allocated ?self3)\<rparr>"
    have alloc: "allocated ?self3 = allocated self"
      by (simp add: call_allocated)
    have stack4: "state_stack ?self4 = state_stack self @ [?fr]"
      by (simp add: call_state_stack)
    have neq: "is_not f (Bound_method (allocated ?self3) Skip)"
      using kind_functions_obj_id[OF Some] 1(2) by (simp add: is_not_def alloc)
    have step: "handle_node ?itm self =
        (case handle_members ms ?self4 of
           Inl e \<Rightarrow> Inl e
         | Inr self5 \<Rightarrow> (case end_scope self5 of Inl e \<Rightarrow> Inl e | Inr self6 \<Rightarrow> pop self6))"
      using Some neq by (simp add: Let_def)
    have "11 \<le> allocated ?self4" using 1(2) by (simp add: alloc)
    from 1(1)[OF this]
    have IH: "walks (handle_members ms ?self4) ?self4 (find unhandled (preorder_members ms))" .
    have nun: "\<not> unhandled ?itm" using Some by (simp add: unhandled_def)
    show ?thesis
    proof (cases "find unhandled (preorder_members ms)")
      case (Some m)
      with IH nun step show ?thesis by (simp add: walks_def)
    next
      case None
      with IH obtain s5 where s5: "handle_members ms ?self4 = Inr s5"
        "state_stack s5 = state_stack self @ [?fr]" "11 \<le> allocated s5"
        using stack4 by (auto simp: walks_def)
      from end_scope_ok[of s5] s5(2) obtain s6 where s6: "end_scope s5 = Inr s6"
        "state_stack s6 = state_stack self @ [?fr]" "allocated s6 = allocated s5"
        by auto
      from pop_ok[OF s6(2)] obtain s7 where s7: "pop s6 = Inr s7"
        "state_stack s7 = state_stack self" "allocated s7 = allocated s6"
        by auto
      from step s5 s6 s7 None nun show ?thesis by (simp add: walks_def)
    qed
  qed
next
  case 2
  then show ?case by (simp add: walks_def)
next
  case (3 x xs)
  from 3(1)[OF 3(3)] have hx: "walks (handle_node x self) self (find unhandled (preorder x))" .
  show ?case
  proof (cases "find unhandled (preorder x)")
    case (Some m)
    with hx show ?thesis by (simp add: walks_def find_append_case)
  next
    case None
    with hx obtain s1 where s1: "handle_node x self = Inr s1"
      "state_stack s1 = state_stack self" "11 \<le> allocated s1"
      by (auto simp: walks_def)
    from 3(2)[OF s1(3)] s1 None show ?thesis
      by (auto simp: walks_def find_append_case split: option.splits)
  qed
qed

section \<open>The claims\<close>

text \<open>
  Claim C1: for every input tree the emitted output is balanced, every opening (the
  module declaration, each namespace, each aggregate registration) having one closing
  line. For a translation unit holding \<open>class A {};\<close> the generator opens the module and
  the registration of \<open>A\<close> and closes only the module: no \<open>;\<close> ends the registration.
\<close>

theorem generate_class_decl_unbalanced:
  \<open>generate (Some (Node ''TRANSLATION_UNIT'' ''/tmp/a.h'' ''''
             [Node ''CLASS_DECL'' ''A'' '''' [] 1 1 7] 0 0 0)) =
   Inr [''#include <a.h>'',
        ''#include <pybind11/pybind11.h>'',
        ''#include <pybind11/stl.h>'',
        ''#include <pybind11/stl_bind.h>'',
        ''namespace py = pybind11;'',
        ''using namespace py::literals;'',
        ''PYBIND11_MODULE(pcl, m){py::class_<A>(m, "A")'',
        ''.def(py::init<>())'',
        ''}'']\<close>
  by code_simp

text \<open>
  Claim C2: the walker recurses into the children of a node if and only if the node's
  policy is emit-binding or ignore; no child of a delegate-to-parent or needs-review
  node is visited. In \<open>struct S { T x; };\<close> the field \<open>x\<close> is delegated to its parent
  and has a type reference as its child; the walker visits that child and records it.
  In the same way the struct declared inside a needs-review function declaration is
  visited and bound.
\<close>

theorem handle_node_visits_children_of_skipped:
  \<open>map_sum id skipped
     (handle_node
        (Node ''STRUCT_DECL'' ''S'' ''''
           [Node ''FIELD_DECL'' ''x'' ''Elaborated''
              [Node ''TYPE_REF'' ''T'' ''Record'' [] 2 1 12] 1 1 14] 0 1 8)
        (init (Node ''STRUCT_DECL'' ''S'' '''' [] 0 1 8))) =
   Inr [\<lparr>rec_line = 1, rec_column = 1, rec_kind = ''FIELD_DECL'', rec_name = ''x''\<rparr>,
        \<lparr>rec_line = 1, rec_column = 1, rec_kind = ''TYPE_REF'', rec_name = ''T''\<rparr>] \<and>
   map_sum id linelist
     (handle_node
        (Node ''FUNCTION_DECL'' ''f'' ''''
           [Node ''STRUCT_DECL'' ''L'' '''' [] 1 2 10] 0 1 6)
        (init (Node ''FUNCTION_DECL'' ''f'' '''' [] 0 1 6))) =
   Inr [''py::class_<L>(m, "L")'', ''.def(py::init<>())'', '';'']\<close>
  by code_simp

text \<open>
  Claim C3: on exit from a node the closing fragment depends on the kind alone:
  \<open>}\<close> for a namespace, \<open>;\<close> for both aggregate kinds and for a class template,
  nothing otherwise. A \<open>STRUCT_DECL\<close> node is closed with \<open>;\<close>; the same node with
  kind \<open>CLASS_DECL\<close> is closed with nothing.
\<close>

theorem end_scope_class_decl:
  \<open>map_sum id linelist
     (handle_node (Node ''STRUCT_DECL'' ''A'' '''' [] 0 1 8)
                  (init (Node ''STRUCT_DECL'' ''A'' '''' [] 0 1 8))) =
   Inr [''py::class_<A>(m, "A")'', ''.def(py::init<>())'', '';''] \<and>
   map_sum id linelist
     (handle_node (Node ''CLASS_DECL'' ''A'' '''' [] 0 1 7)
                  (init (Node ''CLASS_DECL'' ''A'' '''' [] 0 1 7))) =
   Inr [''py::class_<A>(m, "A")'', ''.def(py::init<>())'']\<close>
  by code_simp

text \<open>
  Claim C5: anonymous flattening applies exactly to the immediate children that are
  anonymous unions or structs; other children contribute no flattened fields. For
  \<open>struct A { struct B { int x; }; };\<close> the handler of \<open>A\<close> flattens the named
  struct \<open>B\<close> and exposes its field \<open>x\<close> as a member of \<open>A\<close>.
\<close>

theorem flattening_reaches_named_struct:
  \<open>linelist (handle_struct_decl (init
     (Node ''STRUCT_DECL'' ''A'' ''''
        [Node ''STRUCT_DECL'' ''B'' ''''
           [Node ''FIELD_DECL'' ''x'' ''Int'' [] 2 1 27] 1 1 19] 0 1 8))) =
   [''py::class_<A>(m, "A")'', ''.def(py::init<>())'', ''.def_readwrite("x", &A::x)'']\<close>
  by code_simp

text \<open>
  Claim C6: every direct method child gets one method-exposure fragment, except a
  method named \<open>PCL_DEPRECATED\<close>; every method whose name differs from the marker gets
  its fragment. A method named \<open>DEPRECATED\<close> differs from the marker and gets none,
  where a method named \<open>get\<close> gets its fragment.
\<close>

theorem method_named_part_of_marker:
  \<open>linelist (handle_struct_decl (init
     (Node ''STRUCT_DECL'' ''S'' ''''
        [Node ''CXX_METHOD'' ''DEPRECATED'' '''' [] 1 1 17,
         Node ''CXX_METHOD'' ''get'' '''' [] 1 1 36] 0 1 8))) =
   [''py::class_<S>(m, "S")'', ''.def(py::init<>())'',
    ''.def("get", py::overload_cast<>(&S::get))'']\<close>
  by code_simp

text \<open>
  Claim C9: a skipped node appends one record with the node's line in \<open>line\<close>, its
  column in \<open>column\<close>, its kind and its name. For a field at line 3, column 9, the
  record holds 3 in \<open>column\<close>.
\<close>

theorem skip_records_line_as_column:
  "skipped (skip (init (Node ''FIELD_DECL'' ''x'' ''Int'' [] 2 3 9))) =
   [\<lparr>rec_line = 3, rec_column = 3, rec_kind = ''FIELD_DECL'', rec_name = ''x''\<rparr>]"
  by code_simp




text \<open>
  Claim C7: a constructor node with formal parameters gets exactly one fragment, holding
  one resolved type per formal parameter in declared order; only a constructor without
  formal parameters gets nothing. For \<open>S(int& x)\<close> the parameter is a reference with
  no type-reference child: no type is resolved for it and no fragment is appended. For
  \<open>S(int& x, float y)\<close> the fragment names one type for two parameters.
\<close>

theorem constructor_drops_reference_parameter:
  "linelist (handle_constructor (init
     (Node ''CONSTRUCTOR'' ''S'' ''''
        [Node ''PARM_DECL'' ''x'' ''LValueReference'' [] 2 1 17] 1 1 12))) = [] \<and>
   linelist (handle_constructor (init
     (Node ''CONSTRUCTOR'' ''S'' ''''
        [Node ''PARM_DECL'' ''x'' ''LValueReference'' [] 2 1 17,
         Node ''PARM_DECL'' ''y'' ''Float'' [] 2 1 26] 1 1 12))) =
     [''.def(py::init<float>())'']"
  by code_simp

text \<open>
  Claim C8: \<open>generate\<close> raises if and only if the input is empty or the tree holds a
  node whose kind is not a key of the dispatch table; on every other input it returns
  the list of lines. The walk visits the nodes in pre-order and enters the children of
  every node, so the error is the \<open>KeyError\<close> of the first such node in pre-order;
  kinds that the table maps to \<open>unsure\<close> are keys and do not raise.
\<close>

theorem generate_raises_iff:
  "generate None = Inl (Exception ''Empty json'') \<and>
   isl (generate (Some root)) = list_ex unhandled (preorder root) \<and>
   (case find unhandled (preorder root) of
      Some n \<Rightarrow> generate (Some root) = Inl (KeyError (kind n))
    | None \<Rightarrow> (\<exists>lines_to_write. generate (Some root) = Inr lines_to_write))"
proof -
  have "11 \<le> allocated (init root)" by (simp add: init_def)
  from handle_node_walks(1)[OF this, of root]
  have w: "walks (handle_node root (init root)) (init root) (find unhandled (preorder root))" .
  have ex: "list_ex unhandled (preorder root) = (find unhandled (preorder root) \<noteq> None)"
    by (auto simp: find_None_iff list_ex_iff)
  show ?thesis
  proof (cases "find unhandled (preorder root)")
    case None
    with w ex show ?thesis by (auto simp: walks_def generate_def Let_def)
  next
    case (Some n)
    with w ex show ?thesis by (simp add: walks_def generate_def)
  qed
qed

text \<open>
  A needs-review function declaration with a needs-review template reference below it is
  tolerated; the tree of the parser's own test, with its \<open>ANONYMOUS_ENUM_DECL\<close>, raises.
\<close>

theorem generate_raises_iff_witness:
  "isl (generate (Some (Node ''TRANSLATION_UNIT'' ''/tmp/file.hpp'' ''''
          [Node ''FUNCTION_DECL'' ''f'' ''''
             [Node ''TEMPLATE_REF'' ''vector'' '''' [] 2 1 6] 1 1 18] 0 0 0))) = False \<and>
   generate (Some (Node ''TRANSLATION_UNIT'' ''/tmp/file.hpp'' ''''
          [Node ''ANONYMOUS_UNION_DECL'' '''' ''''
             [Node ''ANONYMOUS_STRUCT_DECL'' '''' ''''
                [Node ''ANONYMOUS_ENUM_DECL'' '''' '''' [] 3 4 13] 2 3 9] 1 2 5] 0 0 0)) =
   Inl (KeyError ''ANONYMOUS_ENUM_DECL'')"
  using generate_raises_iff [of "Node ''TRANSLATION_UNIT'' ''/tmp/file.hpp'' ''''
          [Node ''FUNCTION_DECL'' ''f'' ''''
             [Node ''TEMPLATE_REF'' ''vector'' '''' [] 2 1 6] 1 1 18] 0 0 0"]
        generate_raises_iff [of "Node ''TRANSLATION_UNIT'' ''/tmp/file.hpp'' ''''
          [Node ''ANONYMOUS_UNION_DECL'' '''' ''''
             [Node ''ANONYMOUS_STRUCT_DECL'' '''' ''''
                [Node ''ANONYMOUS_ENUM_DECL'' '''' '''' [] 3 4 13] 2 3 9] 1 2 5] 0 0 0"]
  by (simp add: unhandled_def kind_functions_def)

text \<open>
  Claim C10: \<open>handle_final\<close> puts the module-declaration opening in front of the first
  fragment that does not start with \<open>namespace\<close>, and of that one only. When the
  fragment list is empty or every fragment starts with \<open>namespace\<close> (\<open>rest\<close> is
  empty) the fragments are emitted unchanged, no opening is added, and the final \<open>}\<close>
  is appended all the same; \<open>generate\<close> returns exactly these lines for a tree whose
  walk ends in such a state.
\<close>

theorem handle_final_module_opening:
  assumes "linelist self = pre @ rest"
    and "list_all (\<lambda>l. startswith l ''namespace'') pre"
    and "rest = [] \<or> \<not> startswith (hd rest) ''namespace''"
  shows "fst (handle_final filename module_name self) =
           (''#include <'' @ filename @ ''>'') # initial_pybind_lines @ pre @
           (case rest of [] \<Rightarrow> [] | x # post \<Rightarrow> (module_open module_name @ x) # post) @
           [''}''] \<and>
         (handle_node root (init root) = Inr self \<longrightarrow>
            generate (Some root) =
              Inr ((''#include <'' @ last (split_str (name root) CHR ''/'') @ ''>'') #
                   initial_pybind_lines @ pre @
                   (case rest of [] \<Rightarrow> [] | x # post \<Rightarrow> (module_open ''pcl'' @ x) # post) @
                   [''}'']))"
proof -
  have final: "fst (handle_final f m self) =
      (''#include <'' @ f @ ''>'') # initial_pybind_lines @ pre @
      (case rest of [] \<Rightarrow> [] | x # post \<Rightarrow> (module_open m @ x) # post) @ [''}'']" for f m
    by (simp add: handle_final_lines assms(1) module_first_split[OF assms(2,3)])
  show ?thesis
  proof (intro conjI impI)
    show "fst (handle_final filename module_name self) =
           (''#include <'' @ filename @ ''>'') # initial_pybind_lines @ pre @
           (case rest of [] \<Rightarrow> [] | x # post \<Rightarrow> (module_open module_name @ x) # post) @
           [''}'']"
      by (rule final)
  next
    assume "handle_node root (init root) = Inr self"
    from generate_Some[OF this] show "generate (Some root) =
              Inr ((''#include <'' @ last (split_str (name root) CHR ''/'') @ ''>'') #
                   initial_pybind_lines @ pre @
                   (case rest of [] \<Rightarrow> [] | x # post \<Rightarrow> (module_open ''pcl'' @ x) # post) @
                   [''}''])"
      by (simp only: final)
  qed
qed

text \<open>
  An empty translation unit yields the preamble followed by the closing \<open>}\<close> alone; a
  fragment list that opens with a namespace gets the module opening on its second line.
\<close>

theorem handle_final_module_opening_witness:
  \<open>generate (Some (Node ''TRANSLATION_UNIT'' ''/tmp/a.h'' '''' [] 0 0 0)) =
     Inr [''#include <a.h>'', ''#include <pybind11/pybind11.h>'', ''#include <pybind11/stl.h>'',
          ''#include <pybind11/stl_bind.h>'', ''namespace py = pybind11;'',
          ''using namespace py::literals;'', ''}''] \<and>
   fst (handle_final ''a.h'' ''pcl''
          \<lparr>state_stack = [],
            linelist = [''namespace foo{'', ''py::class_<A>(m, "A")'', ''.def(py::init<>())'',
                        '';'', ''}''],
            skipped = [], inclusion_list = [],
            item = Node ''STRUCT_DECL'' ''A'' '''' [] 2 1 24, allocated = 14\<rparr>) =
     [''#include <a.h>'', ''#include <pybind11/pybind11.h>'', ''#include <pybind11/stl.h>'',
      ''#include <pybind11/stl_bind.h>'', ''namespace py = pybind11;'',
      ''using namespace py::literals;'', ''namespace foo{'',
      ''PYBIND11_MODULE(pcl, m){py::class_<A>(m, "A")'', ''.def(py::init<>())'',
      '';'', ''}'', ''}'']\<close>
proof -
  let ?tu = "Node ''TRANSLATION_UNIT'' ''/tmp/a.h'' '''' [] 0 0 0"
  let ?st = "\<lparr>state_stack = [], linelist = [],
              skipped = [\<lparr>rec_line = 0, rec_column = 0, rec_kind = ''TRANSLATION_UNIT'',
                          rec_name = ''/tmp/a.h''\<rparr>],
              inclusion_list = [], item = ?tu, allocated = 12\<rparr>"
  have run: "handle_node ?tu (init ?tu) = Inr ?st"
    by code_simp
  have e1: "linelist ?st = [] @ []"
    by simp
  have e2: "list_all (\<lambda>l. startswith l ''namespace'') []"
    by simp
  have e3: "([]::string list) = [] \<or> \<not> startswith (hd []) ''namespace''"
    by simp
  have empty: \<open>generate (Some ?tu) =
     Inr [''#include <a.h>'', ''#include <pybind11/pybind11.h>'', ''#include <pybind11/stl.h>'',
          ''#include <pybind11/stl_bind.h>'', ''namespace py = pybind11;'',
          ''using namespace py::literals;'', ''}'']\<close>
    using handle_final_module_opening
            [OF e1 e2 e3, of "''a.h''" "''pcl''" ?tu, THEN conjunct2, THEN mp, OF run]
    by (simp add: initial_pybind_lines_def)
  let ?rest = \<open>[''py::class_<A>(m, "A")'', ''.def(py::init<>())'', '';'', ''}'']\<close>
  let ?st2 = "\<lparr>state_stack = [], linelist = ''namespace foo{'' # ?rest,
               skipped = [], inclusion_list = [],
               item = Node ''STRUCT_DECL'' ''A'' '''' [] 2 1 24, allocated = 14\<rparr>"
  have n1: "linelist ?st2 = [''namespace foo{''] @ ?rest"
    by simp
  have n2: "list_all (\<lambda>l. startswith l ''namespace'') [''namespace foo{'']"
    by simp
  have n3: "?rest = [] \<or> \<not> startswith (hd ?rest) ''namespace''"
    by simp
  have opened: \<open>fst (handle_final ''a.h'' ''pcl'' ?st2) =
     [''#include <a.h>'', ''#include <pybind11/pybind11.h>'', ''#include <pybind11/stl.h>'',
      ''#include <pybind11/stl_bind.h>'', ''namespace py = pybind11;'',
      ''using namespace py::literals;'', ''namespace foo{'',
      ''PYBIND11_MODULE(pcl, m){py::class_<A>(m, "A")'', ''.def(py::init<>())'',
      '';'', ''}'', ''}'']\<close>
    using handle_final_module_opening
            [OF n1 n2 n3, of "''a.h''" "''pcl''" ?tu, THEN conjunct1]
    by (simp add: initial_pybind_lines_def module_open_def)
  from empty opened show ?thesis
    by (rule conjI)
qed

end
